theory Spec2Isabelle
  imports Main
begin

section \<open>JavaScript values used by server.js\<close>

text \<open>
  Numbers are modelled as integers plus \<open>NaN\<close>: every number the proxy computes with is a
  millisecond timestamp, a lifetime in seconds, a status code or a result limit, all of
  them integers that a double holds exactly. Fractional and infinite doubles are outside
  the model.
\<close>

datatype jsnum = Num int | NaN

text \<open>
  A value is what \<open>JSON.parse\<close> or the query-string parser can produce, \<open>undefined\<close>
  (a missing property), or a member of \<open>Object.prototype\<close> that a property read on an
  object literal reaches through the prototype chain (\<open>Native key\<close>).
  An object is the list of its own properties; the first binding of a key is the one read.
\<close>

datatype jsv =
    Undefined
  | Null
  | Bool bool
  | Number jsnum
  | Str string
  | Arr "jsv list"
  | Obj "(string \<times> jsv) list"
  | Native string

fun truthy :: "jsv \<Rightarrow> bool" where
  "truthy Undefined = False"
| "truthy Null = False"
| "truthy (Bool b) = b"
| "truthy (Number (Num n)) = (n \<noteq> 0)"
| "truthy (Number NaN) = False"
| "truthy (Str s) = (s \<noteq> [])"
| "truthy (Arr xs) = True"
| "truthy (Obj kvs) = True"
| "truthy (Native k) = True"

fun nullish :: "jsv \<Rightarrow> bool" where
  "nullish Undefined = True"
| "nullish Null = True"
| "nullish v = False"

text \<open>\<open>a || b\<close> and \<open>a && b\<close>; the right operands in server.js that can throw are guarded
  where they are used.\<close>

definition js_or :: "jsv \<Rightarrow> jsv \<Rightarrow> jsv" where
  "js_or a b = (if truthy a then a else b)"

definition js_and :: "jsv \<Rightarrow> jsv \<Rightarrow> jsv" where
  "js_and a b = (if truthy a then b else a)"

subsection \<open>Strings\<close>

text \<open>
  A character is a UTF-16 code unit below 256 (Latin-1). The white space and line
  terminators of ECMAScript in that range are TAB, LF, VT, FF, CR, SPACE and NBSP.
\<close>

definition is_ws :: "char \<Rightarrow> bool" where
  "is_ws c = (of_char c \<in> {9, 10, 11, 12, 13, 32, 160 :: nat})"

definition trim :: "string \<Rightarrow> string" where
  "trim s = rev (dropWhile is_ws (rev (dropWhile is_ws s)))"

definition is_upper :: "char \<Rightarrow> bool" where
  "is_upper c = (let n = of_char c :: nat in
     (65 \<le> n \<and> n \<le> 90) \<or> (192 \<le> n \<and> n \<le> 222 \<and> n \<noteq> 215))"

definition lower_char :: "char \<Rightarrow> char" where
  "lower_char c = (if is_upper c then char_of (of_char c + 32 :: nat) else c)"

definition toLowerCase :: "string \<Rightarrow> string" where
  "toLowerCase s = map lower_char s"

fun join :: "string \<Rightarrow> string list \<Rightarrow> string" where
  "join sep [] = []"
| "join sep [x] = x"
| "join sep (x # y # ys) = x @ sep @ join sep (y # ys)"

definition digit_char :: "nat \<Rightarrow> char" where
  "digit_char d = char_of (48 + d)"

fun string_of_nat :: "nat \<Rightarrow> string" where
  "string_of_nat n =
     (if n < 10 then [digit_char n] else string_of_nat (n div 10) @ [digit_char (n mod 10)])"

text \<open>The decimal digits of an integer.\<close>

definition string_of_int :: "int \<Rightarrow> string" where
  "string_of_int i = (if i < 0 then CHR ''-'' # string_of_nat (nat (- i)) else string_of_nat (nat i))"

subsection \<open>Exceptions\<close>

text \<open>
  Every exception server.js can meet carries a message: the \<open>Error\<close> thrown by
  \<open>getAccessToken\<close>, the TypeError of a property read on \<open>null\<close>, of a call of something
  that is no function or of a conversion of an object that has no primitive value (also
  the rejection of \<open>fetch\<close>), and the SyntaxError of \<open>r.json()\<close>.
\<close>

datatype exn = Error string | TypeError string | SyntaxError string

fun message :: "exn \<Rightarrow> string" where
  "message (Error m) = m"
| "message (TypeError m) = m"
| "message (SyntaxError m) = m"

text \<open>A list of results in order: the first exception, or all the values.\<close>

fun sequence :: "(exn + 'a) list \<Rightarrow> exn + 'a list" where
  "sequence [] = Inr []"
| "sequence (x # xs) =
     (case x of
        Inl ex \<Rightarrow> Inl ex
      | Inr v \<Rightarrow> (case sequence xs of Inl ex \<Rightarrow> Inl ex | Inr vs \<Rightarrow> Inr (v # vs)))"

subsection \<open>What the model leaves open\<close>

text \<open>
  Three results of JavaScript lie outside the integer model, and the model gives them no
  value: the text of an integer of magnitude \<open>10^21\<close> or more, which JavaScript prints in
  exponent notation; the double that a sum or product beyond \<open>2^53\<close> is rounded to; and
  the number denoted by a string that is not empty and not a plain signed run of decimal
  digits (a fraction, an exponent, a radix prefix, \<open>Infinity\<close>, or no number at all).
  Nothing is proved about these three constants.
\<close>

definition exponent_text :: "int \<Rightarrow> string" where
  "exponent_text = undefined"

definition inexact_number :: "int \<Rightarrow> jsnum" where
  "inexact_number = undefined"

definition other_numeric_string :: "string \<Rightarrow> jsnum" where
  "other_numeric_string = undefined"

subsection \<open>Conversion to a string\<close>

text \<open>An own property with this key; the values of parsed JSON are never functions.\<close>

definition has_own :: "(string \<times> jsv) list \<Rightarrow> string \<Rightarrow> bool" where
  "has_own kvs k = (map_of kvs k \<noteq> None)"

text \<open>
  \<open>ToString\<close>: \<open>String(v)\<close>, the conversion inside a template literal and inside
  \<open>Array.prototype.join\<close>. An array is joined with commas, its \<open>null\<close> and \<open>undefined\<close>
  entries printing as nothing. A plain object prints through the inherited \<open>toString\<close>; an
  object with an own member \<open>toString\<close> has no primitive value (the member is not a
  function and the inherited \<open>valueOf\<close> returns the object), so the conversion throws. A
  native function prints as V8 prints it; the \<open>__proto__\<close> accessor yields
  \<open>Object.prototype\<close>, which prints as a plain object.
\<close>

fun to_string :: "jsv \<Rightarrow> exn + string" where
  "to_string Undefined = Inr ''undefined''"
| "to_string Null = Inr ''null''"
| "to_string (Bool b) = Inr (if b then ''true'' else ''false'')"
| "to_string (Number (Num n)) =
     Inr (if \<bar>n\<bar> < 10 ^ 21 then string_of_int n else exponent_text n)"
| "to_string (Number NaN) = Inr ''NaN''"
| "to_string (Str s) = Inr s"
| "to_string (Arr xs) =
     (case sequence (map (\<lambda>v. if nullish v then Inr [] else to_string v) xs) of
        Inl ex \<Rightarrow> Inl ex
      | Inr ss \<Rightarrow> Inr (join '','' ss))"
| "to_string (Obj kvs) =
     (if has_own kvs ''toString'' then Inl (TypeError ''Cannot convert object to primitive value'')
      else Inr ''[object Object]'')"
| "to_string (Native k) =
     Inr (if k = ''__proto__'' then ''[object Object]''
          else ''function '' @ (if k = ''constructor'' then ''Object'' else k) @ ''() { [native code] }'')"

text \<open>The text of a value whose conversion cannot throw: a string or a native member.\<close>

definition printed :: "jsv \<Rightarrow> string" where
  "printed v = (case to_string v of Inr s \<Rightarrow> s | Inl ex \<Rightarrow> [])"

text \<open>
  The method call \<open>v.toString()\<close> on a value that is not nullish. It differs from
  \<open>ToString\<close> on an object with an own member \<open>toString\<close>: the member is called, and it is
  no function. The argument \<open>src\<close> is the source text of the receiver, which V8 quotes.
\<close>

definition call_toString :: "string \<Rightarrow> jsv \<Rightarrow> exn + string" where
  "call_toString src v =
     (case v of
        Obj kvs \<Rightarrow>
          if has_own kvs ''toString'' then Inl (TypeError (src @ ''.toString is not a function''))
          else Inr ''[object Object]''
      | _ \<Rightarrow> to_string v)"

subsection \<open>Numbers\<close>

definition is_digit :: "char \<Rightarrow> bool" where
  "is_digit c = (48 \<le> (of_char c :: nat) \<and> (of_char c :: nat) \<le> 57)"

definition digits_value :: "string \<Rightarrow> nat" where
  "digits_value ds = foldl (\<lambda>a c. 10 * a + (of_char c - 48)) 0 ds"

text \<open>
  The number an integer result is: exact while its magnitude is at most \<open>2^53\<close>, where
  every integer is a double; beyond, the rounded double is left open.
\<close>

definition to_double :: "int \<Rightarrow> jsnum" where
  "to_double r = (if \<bar>r\<bar> \<le> 2 ^ 53 then Num r else inexact_number r)"

text \<open>
  \<open>parseInt(s, 10)\<close>: leading white space is skipped, one sign is read, then the longest
  run of decimal digits; no digit gives \<open>NaN\<close>.
\<close>

definition parseInt :: "string \<Rightarrow> jsnum" where
  "parseInt s =
     (let t = dropWhile is_ws s;
          neg = (t \<noteq> [] \<and> hd t = CHR ''-'');
          r = (if t \<noteq> [] \<and> (hd t = CHR ''-'' \<or> hd t = CHR ''+'') then tl t else t);
          ds = takeWhile is_digit r
      in if ds = [] then NaN
         else to_double ((if neg then - 1 else 1) * int (digits_value ds)))"

fun Math_max :: "jsnum \<Rightarrow> jsnum \<Rightarrow> jsnum" where
  "Math_max (Num a) (Num b) = Num (max a b)"
| "Math_max _ _ = NaN"

fun Math_min :: "jsnum \<Rightarrow> jsnum \<Rightarrow> jsnum" where
  "Math_min (Num a) (Num b) = Num (min a b)"
| "Math_min _ _ = NaN"

fun num_add :: "jsnum \<Rightarrow> jsnum \<Rightarrow> jsnum" where
  "num_add (Num a) (Num b) = to_double (a + b)"
| "num_add _ _ = NaN"

text \<open>
  The difference is used only in \<open>now < tokenCache.expires_at - 10_000\<close> with \<open>now\<close> a time
  value, of magnitude below \<open>2^53\<close>: there the comparison with the exact difference and the
  comparison with the rounded one agree, rounding being monotone.
\<close>

fun num_sub :: "jsnum \<Rightarrow> jsnum \<Rightarrow> jsnum" where
  "num_sub (Num a) (Num b) = Num (a - b)"
| "num_sub _ _ = NaN"

fun num_mul :: "jsnum \<Rightarrow> jsnum \<Rightarrow> jsnum" where
  "num_mul (Num a) (Num b) = to_double (a * b)"
| "num_mul _ _ = NaN"

text \<open>\<open>a < b\<close> on numbers: false as soon as one side is \<open>NaN\<close>.\<close>

fun num_less :: "jsnum \<Rightarrow> jsnum \<Rightarrow> bool" where
  "num_less (Num a) (Num b) = (a < b)"
| "num_less _ _ = False"

text \<open>
  \<open>ToNumber\<close> of a string: white space is trimmed, the empty string is 0, a signed run
  of decimal digits is its value; the value of every other string is left open.
\<close>

definition string_to_number :: "string \<Rightarrow> jsnum" where
  "string_to_number s =
     (let t = trim s;
          neg = (t \<noteq> [] \<and> hd t = CHR ''-'');
          r = (if t \<noteq> [] \<and> (hd t = CHR ''-'' \<or> hd t = CHR ''+'') then tl t else t)
      in if t = [] then Num 0
         else if r \<noteq> [] \<and> list_all is_digit r
         then to_double ((if neg then - 1 else 1) * int (digits_value r))
         else other_numeric_string s)"

text \<open>
  \<open>ToNumber\<close>, as the operand of \<open>*\<close> on line 51. An array converts through its text.
  A plain object converts through the text \<open>[object Object]\<close>, which is no number; an
  object with an own member \<open>toString\<close> has no primitive value and the conversion throws.
\<close>

fun to_number :: "jsv \<Rightarrow> exn + jsnum" where
  "to_number Undefined = Inr NaN"
| "to_number Null = Inr (Num 0)"
| "to_number (Bool b) = Inr (Num (if b then 1 else 0))"
| "to_number (Number n) = Inr n"
| "to_number (Str s) = Inr (string_to_number s)"
| "to_number (Arr xs) =
     (case to_string (Arr xs) of Inl ex \<Rightarrow> Inl ex | Inr s \<Rightarrow> Inr (string_to_number s))"
| "to_number (Obj kvs) =
     (if has_own kvs ''toString'' then Inl (TypeError ''Cannot convert object to primitive value'')
      else Inr NaN)"
| "to_number (Native k) = Inr NaN"

subsection \<open>Property reads\<close>

text \<open>
  \<open>v.key\<close> for the fixed keys server.js reads from parsed JSON; none of them is a member
  of a built-in prototype, so only an object's own properties answer. The base is not
  nullish: each read whose base can be nullish is guarded at its use, where JavaScript
  throws a TypeError.
\<close>

fun get_prop :: "jsv \<Rightarrow> string \<Rightarrow> jsv" where
  "get_prop (Obj kvs) k = (case map_of kvs k of Some v \<Rightarrow> v | None \<Rightarrow> Undefined)"
| "get_prop v k = Undefined"

text \<open>\<open>v?.key\<close>\<close>

definition opt_get :: "jsv \<Rightarrow> string \<Rightarrow> jsv" where
  "opt_get v k = (if nullish v then Undefined else get_prop v k)"

text \<open>\<open>v[i]\<close> for a literal index.\<close>

fun index :: "jsv \<Rightarrow> nat \<Rightarrow> jsv" where
  "index (Arr xs) i = (if i < length xs then xs ! i else Undefined)"
| "index (Str s) i = (if i < length s then Str [s ! i] else Undefined)"
| "index (Obj kvs) i = get_prop (Obj kvs) (string_of_nat i)"
| "index v i = Undefined"

section \<open>Helpers of server.js\<close>

definition LANG_HINT :: "(string \<times> string) list" where
  "LANG_HINT =
     [(''hindi'', ''Hindi song''),
      (''english'', ''English song''),
      (''kannada'', ''Kannada song''),
      (''tamil'', ''Tamil song''),
      (''telugu'', ''Telugu song'')]"

text \<open>The properties every object literal inherits from \<open>Object.prototype\<close>.\<close>

definition Object_prototype_keys :: "string list" where
  "Object_prototype_keys =
     [''constructor'', ''__defineGetter__'', ''__defineSetter__'', ''hasOwnProperty'',
      ''__lookupGetter__'', ''__lookupSetter__'', ''isPrototypeOf'', ''propertyIsEnumerable'',
      ''toString'', ''valueOf'', ''__proto__'', ''toLocaleString'']"

text \<open>\<open>LANG_HINT[key]\<close>: an own property first, then the prototype chain.\<close>

definition LANG_HINT_get :: "string \<Rightarrow> jsv" where
  "LANG_HINT_get k =
     (case map_of LANG_HINT k of
        Some phrase \<Rightarrow> Str phrase
      | None \<Rightarrow> if k \<in> set Object_prototype_keys then Native k else Undefined)"

text \<open>
  \<^verbatim>\<open>function buildQuery(q, lang) {
    const hint = LANG_HINT[(lang || "").toLowerCase()] || "";
    return [q, hint].filter(Boolean).join(" ").trim();
  }\<close>
  Both arguments are strings at the only call, and the hint that is joined is a string
  or an inherited member: no conversion here can throw.
\<close>

definition buildQuery :: "string \<Rightarrow> string \<Rightarrow> string" where
  "buildQuery q lang =
     (let hint = js_or (LANG_HINT_get (toLowerCase (printed (js_or (Str lang) (Str []))))) (Str [])
      in trim (join '' '' (map printed (filter truthy [Str q, hint]))))"

section \<open>Errors, upstream responses and recorded calls\<close>

definition cannot_read :: "jsv \<Rightarrow> string \<Rightarrow> exn" where
  "cannot_read v k =
     TypeError (''Cannot read properties of '' @ (if v = Null then ''null'' else ''undefined'') @
                '' (reading '' @ [CHR 0x27] @ k @ [CHR 0x27] @ '')'')"

text \<open>
  What \<open>await fetch(...)\<close> followed by \<open>await r.json()\<close> can give: the fetch rejects
  (transport failure, with its message), or a response arrives with a status and a body
  that either parses as JSON or makes \<open>r.json()\<close> reject with the parser's message.
\<close>

datatype json_body = Parsed jsv | Unparsable string

datatype fetch_result = Rejected string | Response int json_body

text \<open>\<open>r.ok\<close>\<close>

definition r_ok :: "int \<Rightarrow> bool" where
  "r_ok st = (200 \<le> st \<and> st \<le> 299)"

text \<open>
  The outbound calls, in the order they are made: the token exchange with the credential
  pair that is sent base64-encoded as HTTP Basic authentication, and the search with its
  Authorization header and URL parameters.
\<close>

datatype call = TokenExchange string | SearchCall string "(string \<times> string) list"

record config =
  CLIENT_ID :: string
  CLIENT_SECRET :: string
  DEFAULT_MARKET :: string

text \<open>\<^verbatim>\<open>let tokenCache = { access_token: null, expires_at: 0 };\<close>\<close>

record token_cache =
  access_token :: jsv
  expires_at :: jsnum

definition initial_cache :: token_cache where
  "initial_cache = \<lparr>access_token = Null, expires_at = Num 0\<rparr>"

text \<open>
  The surroundings of one request: the two readings of \<open>Date.now()\<close> in \<open>getAccessToken\<close>
  (on entry, and when the expiry is stored) and the answers of the two upstream endpoints,
  each consulted only if the code makes the call.
\<close>

record env =
  now_entry :: int
  token_response :: fetch_result
  now_store :: int
  search_response :: fetch_result

section \<open>Token cache\<close>

text \<open>
  \<^verbatim>\<open>async function getAccessToken() {
    const now = Date.now();
    if (tokenCache.access_token && now < tokenCache.expires_at - 10_000) {
      return tokenCache.access_token;
    }
    ...
    const r = await fetch("https://accounts.spotify.com/api/token", {...});
    const data = await r.json();
    if (!r.ok) {
      throw new Error(`Spotify token failed: ${data.error || r.status}`);
    }
    tokenCache.access_token = data.access_token;
    tokenCache.expires_at = Date.now() + data.expires_in * 1000;
    return tokenCache.access_token;
  }\<close>
  The result is the thrown exception or the returned value, the cache afterwards, and the
  calls made.
\<close>

definition getAccessToken ::
  "config \<Rightarrow> env \<Rightarrow> token_cache \<Rightarrow> (exn + jsv) \<times> token_cache \<times> call list" where
  "getAccessToken cfg e c =
     (if truthy (access_token c) \<and> num_less (Num (now_entry e)) (num_sub (expires_at c) (Num 10000))
      then (Inr (access_token c), c, [])
      else
        let calls = [TokenExchange (CLIENT_ID cfg @ '':'' @ CLIENT_SECRET cfg)] in
        case token_response e of
          Rejected msg \<Rightarrow> (Inl (TypeError msg), c, calls)
        | Response st b \<Rightarrow>
            (case b of
               Unparsable msg \<Rightarrow> (Inl (SyntaxError msg), c, calls)
             | Parsed data \<Rightarrow>
                 if \<not> r_ok st then
                   (if nullish data then (Inl (cannot_read data ''error''), c, calls)
                    else
                      (case to_string (js_or (get_prop data ''error'') (Number (Num st))) of
                         Inl ex \<Rightarrow> (Inl ex, c, calls)
                       | Inr s \<Rightarrow> (Inl (Error (''Spotify token failed: '' @ s)), c, calls)))
                 else if nullish data then (Inl (cannot_read data ''access_token''), c, calls)
                 else
                   let c1 = c\<lparr>access_token := get_prop data ''access_token''\<rparr> in
                   (case to_number (get_prop data ''expires_in'') of
                      Inl ex \<Rightarrow> (Inl ex, c1, calls)
                    | Inr lifetime \<Rightarrow>
                        let c2 = c1\<lparr>expires_at := num_add (Num (now_store e))
                                   (num_mul lifetime (Num 1000))\<rparr>
                        in (Inr (access_token c2), c2, calls))))"

section \<open>Track mapping\<close>

text \<open>
  \<open>t.artists?.map((a) => a.name).join(", ")\<close> for a value of \<open>t.artists\<close> that is not
  nullish: only an array has \<open>map\<close>; reading \<open>name\<close> of a nullish element throws.
\<close>

definition artists_joined :: "jsv \<Rightarrow> exn + jsv" where
  "artists_joined a =
     (case a of
        Arr xs \<Rightarrow>
          (case filter nullish xs of
             x # _ \<Rightarrow> Inl (cannot_read x ''name'')
           | [] \<Rightarrow>
               (case sequence
                       (map (\<lambda>x. let n = get_prop x ''name''
                                  in if nullish n then Inr [] else to_string n) xs) of
                  Inl ex \<Rightarrow> Inl ex
                | Inr names \<Rightarrow> Inr (Str (join '', '' names))))
      | _ \<Rightarrow> Inl (TypeError ''t.artists?.map is not a function''))"

text \<open>
  \<^verbatim>\<open>function mapTrack(t) {
    return {
      id: t.id,
      title: t.name,
      artists: t.artists?.map((a) => a.name).join(", ") || "",
      album: t.album?.name || "",
      image:
        (t.album?.images && t.album.images[0]?.url) ||
        (t.album?.images && t.album.images[1]?.url) ||
        (t.album?.images && t.album.images[2]?.url) ||
        "",
      url: t.external_urls?.spotify || `https://open.spotify.com/track/${t.id}`,
      duration_ms: t.duration_ms,
      explicit: !!t.explicit,
      preview_url: t.preview_url || null,
    };
  }\<close>
  The right operand \<open>t.album.images[i]?.url\<close> is evaluated only when \<open>t.album?.images\<close> is
  truthy, so \<open>t.album\<close> is not nullish there and \<open>t.album.images\<close> is the same value.
  The members are evaluated in order: \<open>artists\<close> can throw before \<open>url\<close>, whose template
  literal is evaluated, and converts \<open>t.id\<close>, only when \<open>external_urls.spotify\<close> is falsy.
\<close>

definition mapTrack :: "jsv \<Rightarrow> exn + jsv" where
  "mapTrack t =
     (if nullish t then Inl (cannot_read t ''id'')
      else
        let artists = get_prop t ''artists'';
            images = opt_get (get_prop t ''album'') ''images'';
            spotify = opt_get (get_prop t ''external_urls'') ''spotify''
        in case (if nullish artists then Inr Undefined else artists_joined artists) of
             Inl ex \<Rightarrow> Inl ex
           | Inr joined \<Rightarrow>
               (case (if truthy spotify then Inr spotify
                      else (case to_string (get_prop t ''id'') of
                              Inl ex \<Rightarrow> Inl ex
                            | Inr s \<Rightarrow> Inr (Str (''https://open.spotify.com/track/'' @ s)))) of
                  Inl ex \<Rightarrow> Inl ex
                | Inr url \<Rightarrow>
                    Inr (Obj
                      [(''id'', get_prop t ''id''),
                       (''title'', get_prop t ''name''),
                       (''artists'', js_or joined (Str [])),
                       (''album'', js_or (opt_get (get_prop t ''album'') ''name'') (Str [])),
                       (''image'',
                          js_or (js_or (js_or
                            (js_and images (opt_get (index images 0) ''url''))
                            (js_and images (opt_get (index images 1) ''url'')))
                            (js_and images (opt_get (index images 2) ''url'')))
                            (Str [])),
                       (''url'', url),
                       (''duration_ms'', get_prop t ''duration_ms''),
                       (''explicit'', Bool (truthy (get_prop t ''explicit''))),
                       (''preview_url'', js_or (get_prop t ''preview_url'') Null)])))"

text \<open>\<open>items.map(mapTrack)\<close> on an array: the first exception ends the loop.\<close>

fun map_mapTrack :: "jsv list \<Rightarrow> exn + jsv list" where
  "map_mapTrack [] = Inr []"
| "map_mapTrack (t # ts) =
     (case mapTrack t of
        Inl ex \<Rightarrow> Inl ex
      | Inr r \<Rightarrow> (case map_mapTrack ts of Inl ex \<Rightarrow> Inl ex | Inr rs \<Rightarrow> Inr (r # rs)))"

section \<open>Routes\<close>

text \<open>
  A response is the status and the object handed to \<open>res.json\<close>, before serialisation
  (\<open>res.json\<close> without \<open>res.status\<close> answers 200).
\<close>

record http_response =
  status :: int
  body :: jsv

text \<open>\<open>req.query\<close>: a parameter that is absent reads \<open>undefined\<close>; one that is given is a
  string, or an array or object when it is repeated or written with brackets.\<close>

record query =
  query_q :: jsv
  query_lang :: jsv
  query_market :: jsv
  query_limit :: jsv

text \<open>
  \<^verbatim>\<open>app.get("/api/health", (_req, res) => {
    res.json({ ok: true, market: DEFAULT_MARKET, token_cached: !!tokenCache.access_token });
  });\<close>
\<close>

definition health :: "config \<Rightarrow> token_cache \<Rightarrow> http_response" where
  "health cfg c =
     \<lparr>status = 200,
      body = Obj [(''ok'', Bool True),
                  (''market'', Str (DEFAULT_MARKET cfg)),
                  (''token_cached'', Bool (truthy (access_token c)))]\<rparr>"

text \<open>\<^verbatim>\<open>catch (err) { res.status(500).json({ error: err.message || "Internal error" }); }\<close>\<close>

definition server_error :: "exn \<Rightarrow> http_response" where
  "server_error ex =
     \<lparr>status = 500, body = Obj [(''error'', js_or (Str (message ex)) (Str ''Internal error''))]\<rparr>"

text \<open>\<^verbatim>\<open>Math.min(Math.max(parseInt(req.query.limit || "24", 10), 1), 50)\<close>; \<open>parseInt\<close>
  converts its argument to a string first.\<close>

definition effective_limit :: "jsv \<Rightarrow> exn + jsnum" where
  "effective_limit l =
     (case to_string (js_or l (Str ''24'')) of
        Inl ex \<Rightarrow> Inl ex
      | Inr s \<Rightarrow> Inr (Math_min (Math_max (parseInt s) (Num 1)) (Num 50)))"

text \<open>The source text of the three receivers of \<open>.toString()\<close> on lines 104, 109 and 110.\<close>

definition q_receiver :: string where
  "q_receiver = ''(req.query.q || '' @ [CHR 0x22, CHR 0x22] @ '')''"

definition lang_receiver :: string where
  "lang_receiver = ''(req.query.lang || '' @ [CHR 0x22] @ ''english'' @ [CHR 0x22] @ '')''"

definition market_receiver :: string where
  "market_receiver = ''(req.query.market || DEFAULT_MARKET)''"

text \<open>
  The handler of \<open>GET /api/search\<close>, lines 96 to 145 of server.js, in the order of the
  source: credentials, query, defaults, token, upstream search, pass-through of an upstream
  failure, mapping. Every exception thrown inside the \<open>try\<close> ends in the \<open>catch\<close>. The
  result is the response, the token cache afterwards and the outbound calls made.
\<close>

definition search ::
  "config \<Rightarrow> env \<Rightarrow> query \<Rightarrow> token_cache \<Rightarrow> http_response \<times> token_cache \<times> call list" where
  "search cfg e req c =
     (if CLIENT_ID cfg = [] \<or> CLIENT_SECRET cfg = [] then
        (\<lparr>status = 500, body = Obj [(''error'', Str ''Server missing Spotify credentials (.env)'')]\<rparr>, c, [])
      else
        case call_toString q_receiver (js_or (query_q req) (Str [])) of
          Inl ex \<Rightarrow> (server_error ex, c, [])
        | Inr qText \<Rightarrow>
        let qRaw = trim qText in
        if qRaw = [] then
          (\<lparr>status = 400, body = Obj [(''error'', Str ''Missing query parameter: q'')]\<rparr>, c, [])
        else
          (case call_toString lang_receiver (js_or (query_lang req) (Str ''english'')) of
            Inl ex \<Rightarrow> (server_error ex, c, [])
          | Inr lang \<Rightarrow>
          (case call_toString market_receiver (js_or (query_market req) (Str (DEFAULT_MARKET cfg))) of
            Inl ex \<Rightarrow> (server_error ex, c, [])
          | Inr market \<Rightarrow>
          (case effective_limit (query_limit req) of
            Inl ex \<Rightarrow> (server_error ex, c, [])
          | Inr limit \<Rightarrow>
          let q = buildQuery qRaw lang
          in (case getAccessToken cfg e c of
               (Inl ex, c', calls) \<Rightarrow> (server_error ex, c', calls)
             | (Inr token, c', calls) \<Rightarrow>
                (let params = [(''q'', q), (''type'', ''track''), (''market'', market),
                               (''limit'', printed (Number limit))]
                 in (case to_string token of
                      Inl ex \<Rightarrow> (server_error ex, c', calls)
                    | Inr tokenText \<Rightarrow>
                 (let calls' = calls @ [SearchCall (''Bearer '' @ tokenText) params]
                 in (case search_response e of
                      Rejected msg \<Rightarrow> (server_error (TypeError msg), c', calls')
                    | Response st b \<Rightarrow>
                        (case b of
                           Unparsable msg \<Rightarrow> (server_error (SyntaxError msg), c', calls')
                         | Parsed data \<Rightarrow>
                             if \<not> r_ok st then
                               (\<lparr>status = st,
                                 body = Obj
                                   [(''error'',
                                       js_or (js_or (opt_get (opt_get data ''error'') ''message'')
                                                    (opt_get data ''error''))
                                             (Str ''Spotify search failed'')),
                                    (''details'', data)]\<rparr>, c', calls')
                             else if nullish data then
                               (server_error (cannot_read data ''tracks''), c', calls')
                             else
                               (case js_or (opt_get (get_prop data ''tracks'') ''items'') (Arr []) of
                                  Arr ts \<Rightarrow>
                                    (case map_mapTrack ts of
                                       Inl ex \<Rightarrow> (server_error ex, c', calls')
                                     | Inr results \<Rightarrow>
                                         (\<lparr>status = 200,
                                           body = Obj [(''query'', Str q), (''results'', Arr results)]\<rparr>,
                                          c', calls'))
                                | _ \<Rightarrow>
                                    (server_error (TypeError ''items.map is not a function''),
                                     c', calls'))))))))))))"

section \<open>Notions of the specification\<close>

text \<open>
  The cached token may be used: a value is present (truthy, as the code tests it) and the
  current time is strictly before the expiry minus the safety margin of 10 seconds.
\<close>

definition cached_token_usable :: "int \<Rightarrow> token_cache \<Rightarrow> bool" where
  "cached_token_usable now c =
     (truthy (access_token c) \<and> (case expires_at c of Num x \<Rightarrow> now < x - 10000 | NaN \<Rightarrow> False))"

definition credentials_configured :: "config \<Rightarrow> bool" where
  "credentials_configured cfg = (CLIENT_ID cfg \<noteq> [] \<and> CLIENT_SECRET cfg \<noteq> [])"

definition missing_credentials_response :: http_response where
  "missing_credentials_response =
     \<lparr>status = 500, body = Obj [(''error'', Str ''Server missing Spotify credentials (.env)'')]\<rparr>"

definition missing_query_response :: http_response where
  "missing_query_response =
     \<lparr>status = 400, body = Obj [(''error'', Str ''Missing query parameter: q'')]\<rparr>"

text \<open>The parameter \<open>q\<close> is absent, or a string that is blank after trimming.\<close>

fun q_absent_or_blank :: "jsv \<Rightarrow> bool" where
  "q_absent_or_blank Undefined = True"
| "q_absent_or_blank (Str s) = (trim s = [])"
| "q_absent_or_blank v = False"

text \<open>Two adjacent space characters somewhere in a string.\<close>

fun has_double_space :: "string \<Rightarrow> bool" where
  "has_double_space (a # b # s) = ((a = CHR '' '' \<and> b = CHR '' '') \<or> has_double_space (b # s))"
| "has_double_space s = False"


text \<open>
  The error message of an upstream payload: the \<open>message\<close> of its \<open>error\<close> member when
  that is non-empty, else the \<open>error\<close> member itself when that is non-empty, else a fixed
  text.
\<close>

definition upstream_error_message :: "jsv \<Rightarrow> jsv" where
  "upstream_error_message data =
     (case data of
        Obj kvs \<Rightarrow>
          (case map_of kvs ''error'' of
             None \<Rightarrow> Str ''Spotify search failed''
           | Some err \<Rightarrow>
               if \<not> nullish err \<and> truthy (get_prop err ''message'') then get_prop err ''message''
               else if truthy err then err
               else Str ''Spotify search failed'')
      | _ \<Rightarrow> Str ''Spotify search failed'')"

subsection \<open>Sample inputs\<close>

definition sample_config :: config where
  "sample_config = \<lparr>CLIENT_ID = ''id'', CLIENT_SECRET = ''secret'', DEFAULT_MARKET = ''IN''\<rparr>"

definition sample_token_payload :: jsv where
  "sample_token_payload =
     Obj [(''access_token'', Str ''T1''), (''token_type'', Str ''Bearer''),
          (''expires_in'', Number (Num 3600))]"

definition sample_env :: env where
  "sample_env =
     \<lparr>now_entry = 1000,
      token_response = Response 200 (Parsed sample_token_payload),
      now_store = 1005,
      search_response = Response 200 (Parsed (Obj [(''tracks'', Obj [(''items'', Arr [])])]))\<rparr>"

definition sample_query :: query where
  "sample_query =
     \<lparr>query_q = Str '' arijit '', query_lang = Str ''Hindi'',
      query_market = Undefined, query_limit = Undefined\<rparr>"




section \<open>Auxiliary lemmas\<close>

subsection \<open>Strings\<close>

lemma has_double_space_Cons:
  "has_double_space (a # s) = ((a = CHR '' '' \<and> s \<noteq> [] \<and> hd s = CHR '' '') \<or> has_double_space s)"
  by (cases s) auto

lemma has_double_space_append:
  "has_double_space (xs @ ys) =
     (has_double_space xs \<or> has_double_space ys \<or>
      (xs \<noteq> [] \<and> ys \<noteq> [] \<and> last xs = CHR '' '' \<and> hd ys = CHR '' ''))"
proof (induction xs)
  case Nil
  then show ?case by simp
next
  case (Cons a xs)
  then show ?case
    by (cases xs) (auto simp: has_double_space_Cons simp del: has_double_space.simps)
qed

lemma dropWhile_no_ws: "s \<noteq> [] \<Longrightarrow> \<not> P (hd s) \<Longrightarrow> dropWhile P s = s"
  by (cases s) auto

lemma trim_unchanged:
  assumes "s \<noteq> []" "\<not> is_ws (hd s)" "\<not> is_ws (last s)"
  shows "trim s = s"
proof -
  have "dropWhile is_ws s = s" using assms by (simp add: dropWhile_no_ws)
  moreover have "dropWhile is_ws (rev s) = rev s"
    using assms by (intro dropWhile_no_ws) (simp_all add: hd_rev)
  ultimately show ?thesis by (simp add: trim_def)
qed

lemma trim_ends:
  assumes "trim s \<noteq> []"
  shows "\<not> is_ws (hd (trim s))" and "\<not> is_ws (last (trim s))"
proof -
  define u where "u = dropWhile is_ws s"
  define v where "v = dropWhile is_ws (rev u)"
  have t: "trim s = rev v" by (simp add: trim_def u_def v_def)
  with assms have v: "v \<noteq> []" by simp
  then have u: "u \<noteq> []" by (auto simp: v_def)
  have "\<not> is_ws (hd v)" using v unfolding v_def by (rule hd_dropWhile)
  then show "\<not> is_ws (last (trim s))" using v by (simp add: t last_rev)
  have "rev u = takeWhile is_ws (rev u) @ v" by (simp add: v_def)
  then have "last (rev u) = last v" using v by (metis last_appendR)
  then have "last v = hd u" using u by (simp add: last_rev)
  moreover have "\<not> is_ws (hd u)" using u unfolding u_def by (rule hd_dropWhile)
  ultimately show "\<not> is_ws (hd (trim s))" using v by (simp add: t hd_rev)
qed

lemma lower_not_upper: "\<not> is_upper (lower_char c)"
  by (auto simp: lower_char_def is_upper_def Let_def)

lemma toLowerCase_no_upper: "c \<in> set (toLowerCase s) \<Longrightarrow> \<not> is_upper c"
  by (auto simp: toLowerCase_def lower_not_upper)

subsection \<open>The language hint\<close>

lemma LANG_HINT_phrase:
  "map_of LANG_HINT k = Some p \<Longrightarrow>
     p \<in> {''Hindi song'', ''English song'', ''Kannada song'', ''Tamil song'', ''Telugu song''}"
  by (auto simp: LANG_HINT_def split: if_splits)

lemma phrase_shape:
  assumes "map_of LANG_HINT k = Some p"
  shows "p \<noteq> []" "\<not> is_ws (hd p)" "\<not> is_ws (last p)" "\<not> has_double_space p"
  using LANG_HINT_phrase [OF assms] by (auto simp: is_ws_def)

text \<open>Of the inherited property names only two are left unchanged by \<open>toLowerCase\<close>.\<close>

lemma inherited_keys_lower:
  assumes "toLowerCase s \<in> set Object_prototype_keys"
  shows "toLowerCase s = ''constructor'' \<or> toLowerCase s = ''__proto__''"
proof (rule ccontr)
  assume n: "\<not> ?thesis"
  with assms have "\<exists>c \<in> set (toLowerCase s). is_upper c"
    by (auto simp: Object_prototype_keys_def is_upper_def)
  then show False using toLowerCase_no_upper by blast
qed

lemma printed_Str [simp]: "printed (Str s) = s"
  by (simp add: printed_def)

lemma printed_Native:
  "printed (Native k) =
     (if k = ''__proto__'' then ''[object Object]''
      else ''function '' @ (if k = ''constructor'' then ''Object'' else k) @ ''() { [native code] }'')"
  by (simp add: printed_def)

lemma lang_or_empty: "printed (js_or (Str lang) (Str [])) = lang"
  by (simp add: js_or_def)

lemma buildQuery_unfold:
  "buildQuery q lang =
     trim (join '' '' (map printed
       (filter truthy [Str q, js_or (LANG_HINT_get (toLowerCase lang)) (Str [])])))"
  by (simp add: buildQuery_def lang_or_empty)

lemma buildQuery_hit:
  assumes q: "q \<noteq> []" "\<not> is_ws (hd q)" "\<not> is_ws (last q)"
      and hit: "map_of LANG_HINT (toLowerCase lang) = Some p"
  shows "buildQuery q lang = q @ '' '' @ p"
proof -
  note ph = phrase_shape [OF hit]
  have "trim (q @ '' '' @ p) = q @ '' '' @ p"
    using q ph by (intro trim_unchanged) simp_all
  then show ?thesis
    using q ph hit by (simp add: buildQuery_unfold LANG_HINT_get_def js_or_def)
qed

lemma buildQuery_miss:
  assumes q: "q \<noteq> []" "\<not> is_ws (hd q)" "\<not> is_ws (last q)"
      and miss: "map_of LANG_HINT (toLowerCase lang) = None"
      and own: "toLowerCase lang \<notin> set Object_prototype_keys"
  shows "buildQuery q lang = q"
  using q miss own
  by (simp add: buildQuery_unfold LANG_HINT_get_def js_or_def trim_unchanged)

text \<open>A hint that names an inherited property appends that property, printed.\<close>

lemma buildQuery_inherited:
  assumes q: "q \<noteq> []" "\<not> is_ws (hd q)" "\<not> is_ws (last q)"
      and k: "toLowerCase lang \<in> set Object_prototype_keys"
  shows "buildQuery q lang = q @ '' '' @ printed (Native (toLowerCase lang))"
proof -
  have miss: "map_of LANG_HINT (toLowerCase lang) = None"
    using k by (auto simp: LANG_HINT_def Object_prototype_keys_def)
  from inherited_keys_lower [OF k]
  have e: "\<not> is_ws (last (printed (Native (toLowerCase lang))))"
          "printed (Native (toLowerCase lang)) \<noteq> []"
    by (auto simp: is_ws_def printed_Native)
  have "trim (q @ '' '' @ printed (Native (toLowerCase lang))) =
        q @ '' '' @ printed (Native (toLowerCase lang))"
    using q e by (intro trim_unchanged) simp_all
  then show ?thesis
    using q miss k by (simp add: buildQuery_unfold LANG_HINT_get_def js_or_def)
qed

subsection \<open>The token cache\<close>

lemma usable_iff:
  "cached_token_usable now c =
     (truthy (access_token c) \<and> num_less (Num now) (num_sub (expires_at c) (Num 10000)))"
  by (cases "expires_at c") (simp_all add: cached_token_usable_def)


lemma getAccessToken_calls:
  "\<not> cached_token_usable (now_entry e) c \<Longrightarrow>
     snd (snd (getAccessToken cfg e c)) = [TokenExchange (CLIENT_ID cfg @ '':'' @ CLIENT_SECRET cfg)]"
  unfolding usable_iff getAccessToken_def
  by (simp add: Let_def split: fetch_result.splits json_body.splits sum.splits)

text \<open>A success status and a payload: the token is stored before the lifetime is converted.\<close>

lemma getAccessToken_store:
  "\<not> cached_token_usable (now_entry e) c \<Longrightarrow> token_response e = Response st (Parsed data) \<Longrightarrow>
   r_ok st \<Longrightarrow> \<not> nullish data \<Longrightarrow> to_number (get_prop data ''expires_in'') = Inr lifetime \<Longrightarrow>
     getAccessToken cfg e c =
       (Inr (get_prop data ''access_token''),
        \<lparr>access_token = get_prop data ''access_token'',
         expires_at = num_add (Num (now_store e)) (num_mul lifetime (Num 1000))\<rparr>,
        [TokenExchange (CLIENT_ID cfg @ '':'' @ CLIENT_SECRET cfg)])"
  unfolding usable_iff getAccessToken_def
  by (simp add: Let_def)

lemma getAccessToken_half_written:
  "\<not> cached_token_usable (now_entry e) c \<Longrightarrow> token_response e = Response st (Parsed data) \<Longrightarrow>
   r_ok st \<Longrightarrow> \<not> nullish data \<Longrightarrow> to_number (get_prop data ''expires_in'') = Inl ex \<Longrightarrow>
     getAccessToken cfg e c =
       (Inl ex, c\<lparr>access_token := get_prop data ''access_token''\<rparr>,
        [TokenExchange (CLIENT_ID cfg @ '':'' @ CLIENT_SECRET cfg)])"
  unfolding usable_iff getAccessToken_def
  by (simp add: Let_def)

lemma getAccessToken_fail:
  "\<not> cached_token_usable (now_entry e) c \<Longrightarrow>
   token_response e = Rejected m \<or> token_response e = Response st (Unparsable m) \<or>
   (token_response e = Response st (Parsed data) \<and> (\<not> r_ok st \<or> nullish data)) \<Longrightarrow>
     (\<exists>ex. fst (getAccessToken cfg e c) = Inl ex) \<and> fst (snd (getAccessToken cfg e c)) = c"
  unfolding usable_iff getAccessToken_def
  by (auto simp add: Let_def split: sum.splits)


subsection \<open>Track mapping\<close>




text \<open>A track whose \<open>artists\<close> are not an array is not mapped: \<open>mapTrack\<close> throws.\<close>

lemma mapTrack_artists_not_array:
  "\<not> nullish t \<Longrightarrow> get_prop t ''artists'' = Str a \<Longrightarrow>
     mapTrack t = Inl (TypeError ''t.artists?.map is not a function'')"
  by (simp add: mapTrack_def artists_joined_def Let_def)

subsection \<open>The search route\<close>

lemma qRaw_blank:
  "q_absent_or_blank v \<Longrightarrow>
     \<exists>s. call_toString q_receiver (js_or v (Str [])) = Inr s \<and> trim s = []"
  by (cases v) (auto simp: js_or_def trim_def call_toString_def)

lemma search_no_credentials:
  "\<not> credentials_configured cfg \<Longrightarrow> search cfg e req c = (missing_credentials_response, c, [])"
  by (auto simp: credentials_configured_def search_def missing_credentials_response_def)

lemma search_blank_query:
  "credentials_configured cfg \<Longrightarrow> q_absent_or_blank (query_q req) \<Longrightarrow>
     search cfg e req c = (missing_query_response, c, [])"
  using qRaw_blank [of "query_q req"]
  by (auto simp add: credentials_configured_def search_def missing_query_response_def)

lemma error_field:
  "js_or (js_or (opt_get (opt_get data ''error'') ''message'') (opt_get data ''error''))
         (Str ''Spotify search failed'') = upstream_error_message data"
  by (cases data) (auto simp: upstream_error_message_def js_or_def opt_get_def split: option.splits)

text \<open>
  The pass-through of lines 129 to 135: once the request has reached the upstream search
  and the answer has a non-success status and a JSON body, the status is mirrored.
\<close>

lemma search_json_failure:
  assumes "credentials_configured cfg"
      and "call_toString q_receiver (js_or (query_q req) (Str [])) = Inr qText"
      and "trim qText \<noteq> []"
      and "call_toString lang_receiver (js_or (query_lang req) (Str ''english'')) = Inr lang"
      and "call_toString market_receiver (js_or (query_market req) (Str (DEFAULT_MARKET cfg))) = Inr market"
      and "effective_limit (query_limit req) = Inr limit"
      and "getAccessToken cfg e c = (Inr token, c', calls)"
      and "to_string token = Inr tokenText"
      and "search_response e = Response st (Parsed data)"
      and "\<not> r_ok st"
  shows "search cfg e req c =
           (\<lparr>status = st, body = Obj [(''error'', upstream_error_message data), (''details'', data)]\<rparr>,
            c',
            calls @ [SearchCall (''Bearer '' @ tokenText)
                       [(''q'', buildQuery (trim qText) lang), (''type'', ''track''),
                        (''market'', market), (''limit'', printed (Number limit))]])"
  using assms
  by (simp add: search_def credentials_configured_def Let_def error_field)

text \<open>The same request whose answer has a body that is not JSON ends in the \<open>catch\<close>.\<close>

lemma search_unparsable:
  assumes "credentials_configured cfg"
      and "call_toString q_receiver (js_or (query_q req) (Str [])) = Inr qText"
      and "trim qText \<noteq> []"
      and "call_toString lang_receiver (js_or (query_lang req) (Str ''english'')) = Inr lang"
      and "call_toString market_receiver (js_or (query_market req) (Str (DEFAULT_MARKET cfg))) = Inr market"
      and "effective_limit (query_limit req) = Inr limit"
      and "getAccessToken cfg e c = (Inr token, c', calls)"
      and "to_string token = Inr tokenText"
      and "search_response e = Response st (Unparsable m)"
  shows "fst (search cfg e req c) = server_error (SyntaxError m)"
  using assms
  by (simp add: search_def credentials_configured_def Let_def)

subsection \<open>The limit\<close>

lemma effective_limit_unset: "effective_limit Undefined = Inr (Num 24)"
  by (simp add: effective_limit_def js_or_def parseInt_def is_ws_def is_digit_def digits_value_def
        to_double_def)

lemma effective_limit_number:
  "to_string (js_or l (Str ''24'')) = Inr s \<Longrightarrow> parseInt s = Num n \<Longrightarrow>
     effective_limit l = Inr (Num (min (max n 1) 50))"
  by (simp add: effective_limit_def)

lemma effective_limit_NaN:
  "to_string (js_or l (Str ''24'')) = Inr s \<Longrightarrow> parseInt s = NaN \<Longrightarrow>
     effective_limit l = Inr NaN"
  by (simp add: effective_limit_def)

section \<open>Claims\<close>

subsection \<open>C1: the cache policy of getAccessToken\<close>




subsection \<open>C2: the limit sent upstream\<close>

text \<open>
  Claim C2 says the limit sent upstream is 24 when unset and otherwise the requested value
  clamped to 1..50, for every requested value including non-numeric input. For the
  request \<open>limit=abc\<close> the handler sends the parameter \<open>limit=NaN\<close>: \<open>parseInt\<close> yields
  \<open>NaN\<close>, which \<open>Math.max\<close> and \<open>Math.min\<close> pass on.
\<close>

theorem search_limit_not_numeric:
  "snd (snd (search sample_config sample_env
       \<lparr>query_q = Str ''arijit'', query_lang = Undefined, query_market = Undefined,
        query_limit = Str ''abc''\<rparr> initial_cache)) =
     [TokenExchange ''id:secret'',
      SearchCall ''Bearer T1''
        [(''q'', ''arijit English song''), (''type'', ''track''), (''market'', ''IN''),
         (''limit'', ''NaN'')]]"
  by code_simp

subsection \<open>C3: failure of the token exchange\<close>

text \<open>
  Against claim C3 as stated: a success status with the payload \<open>{}\<close>, which holds no
  access token, makes \<open>getAccessToken\<close> return \<open>undefined\<close> normally and store it.
\<close>

theorem getAccessToken_empty_payload_counterexample:
  "getAccessToken sample_config
     \<lparr>now_entry = 1000, token_response = Response 200 (Parsed (Obj [])), now_store = 1005,
      search_response = Rejected []\<rparr> initial_cache =
     (Inr Undefined, \<lparr>access_token = Undefined, expires_at = NaN\<rparr>, [TokenExchange ''id:secret''])"
  by code_simp

text \<open>
  Claim C3, amended. When the cached token is not usable, \<open>getAccessToken\<close> throws and
  leaves the cache unchanged whenever the exchange is rejected, answers with a body that
  is not JSON, answers with a non-success status, or answers with the JSON value \<open>null\<close>.
  On a success status with any other JSON payload it stores what the payload holds under
  \<open>access_token\<close> without looking at it (\<open>undefined\<close> when the member is missing), and
  it returns that value normally whenever the conversion of \<open>expires_in\<close> to a number
  does not throw.
\<close>

theorem getAccessToken_failure:
  "\<not> cached_token_usable (now_entry e) c \<Longrightarrow>
     (token_response e = Rejected m \<or> token_response e = Response st (Unparsable m) \<or>
      (token_response e = Response st (Parsed data) \<and> (\<not> r_ok st \<or> nullish data)) \<longrightarrow>
        (\<exists>ex. fst (getAccessToken cfg e c) = Inl ex) \<and> fst (snd (getAccessToken cfg e c)) = c)
     \<and> (token_response e = Response st (Parsed data) \<and> r_ok st \<and> \<not> nullish data \<longrightarrow>
          access_token (fst (snd (getAccessToken cfg e c))) = get_prop data ''access_token''
          \<and> (to_number (get_prop data ''expires_in'') = Inr lifetime \<longrightarrow>
               fst (getAccessToken cfg e c) = Inr (get_prop data ''access_token'')))"
proof (intro conjI impI)
  assume u: "\<not> cached_token_usable (now_entry e) c"
  assume "token_response e = Rejected m \<or> token_response e = Response st (Unparsable m) \<or>
      (token_response e = Response st (Parsed data) \<and> (\<not> r_ok st \<or> nullish data))"
  with u show "\<exists>ex. fst (getAccessToken cfg e c) = Inl ex"
    and "fst (snd (getAccessToken cfg e c)) = c"
    using getAccessToken_fail [of e c m st data cfg] by blast+
next
  assume u: "\<not> cached_token_usable (now_entry e) c"
  assume s: "token_response e = Response st (Parsed data) \<and> r_ok st \<and> \<not> nullish data"
  show "access_token (fst (snd (getAccessToken cfg e c))) = get_prop data ''access_token''"
  proof (cases "to_number (get_prop data ''expires_in'')")
    case (Inl ex)
    with u s show ?thesis by (simp add: getAccessToken_half_written)
  next
    case (Inr v)
    with u s show ?thesis by (simp add: getAccessToken_store)
  qed
  assume "to_number (get_prop data ''expires_in'') = Inr lifetime"
  with u s show "fst (getAccessToken cfg e c) = Inr (get_prop data ''access_token'')"
    by (simp add: getAccessToken_store)
qed

text \<open>
  An answer 401 with an error payload: the call throws, the cache stays empty. An answer
  200 with a token: the call returns the token and stores it.
\<close>

theorem getAccessToken_failure_witness:
  "(\<exists>ex. fst (getAccessToken sample_config
       \<lparr>now_entry = 1000,
        token_response = Response 401 (Parsed (Obj [(''error'', Str ''invalid_client'')])),
        now_store = 1005, search_response = Rejected []\<rparr> initial_cache) = Inl ex)
   \<and> fst (snd (getAccessToken sample_config
       \<lparr>now_entry = 1000,
        token_response = Response 401 (Parsed (Obj [(''error'', Str ''invalid_client'')])),
        now_store = 1005, search_response = Rejected []\<rparr> initial_cache)) = initial_cache
   \<and> fst (getAccessToken sample_config sample_env initial_cache) = Inr (Str ''T1'')
   \<and> access_token (fst (snd (getAccessToken sample_config sample_env initial_cache))) = Str ''T1''"
proof -
  let ?e = "\<lparr>now_entry = 1000,
        token_response = Response 401 (Parsed (Obj [(''error'', Str ''invalid_client'')])),
        now_store = 1005, search_response = Rejected []\<rparr>"
  have miss: "\<not> cached_token_usable (now_entry ?e) initial_cache"
    by (simp add: cached_token_usable_def initial_cache_def)
  have reply: "token_response ?e = Response 401 (Parsed (Obj [(''error'', Str ''invalid_client'')]))"
    by simp
  have bad: "\<not> r_ok 401" by (simp add: r_ok_def)
  have miss': "\<not> cached_token_usable (now_entry sample_env) initial_cache"
    by (simp add: cached_token_usable_def initial_cache_def)
  have reply': "token_response sample_env = Response 200 (Parsed sample_token_payload)"
    by (simp add: sample_env_def)
  have ok: "r_ok 200" "\<not> nullish sample_token_payload"
    "get_prop sample_token_payload ''access_token'' = Str ''T1''"
    "to_number (get_prop sample_token_payload ''expires_in'') = Inr (Num 3600)"
    by (simp_all add: r_ok_def sample_token_payload_def)
  from getAccessToken_failure
         [OF miss, where m = "[]" and st = 401 and cfg = sample_config
            and data = "Obj [(''error'', Str ''invalid_client'')]"] reply bad
  have "(\<exists>ex. fst (getAccessToken sample_config ?e initial_cache) = Inl ex)
     \<and> fst (snd (getAccessToken sample_config ?e initial_cache)) = initial_cache"
    by blast
  moreover
  from getAccessToken_failure
         [OF miss', where st = 200 and cfg = sample_config and data = sample_token_payload
            and lifetime = "Num 3600"]
       reply' ok
  have "fst (getAccessToken sample_config sample_env initial_cache) = Inr (Str ''T1'')
     \<and> access_token (fst (snd (getAccessToken sample_config sample_env initial_cache))) = Str ''T1''"
    by simp
  ultimately show ?thesis by blast
qed

subsection \<open>C4: the shape of the augmented query\<close>

text \<open>
  Against claim C4 as stated: the query \<open>a  b\<close> is unchanged by trimming, and the
  augmented query \<open>a  b English song\<close> contains the double space of the query.
\<close>

theorem buildQuery_double_space_counterexample:
  "trim ''a  b'' = ''a  b''
   \<and> buildQuery (trim ''a  b'') ''english'' = ''a  b English song''
   \<and> has_double_space (buildQuery (trim ''a  b'') ''english'')"
  by code_simp

text \<open>
  Claim C4, amended. For every query that is non-empty after trimming and every language
  hint whose lower-case form is neither \<open>constructor\<close> nor \<open>__proto__\<close>: the augmented
  query is the trimmed query, followed by exactly one space and the hint phrase when the
  lower-cased hint is a key of the Language Hint Table, and the trimmed query alone
  otherwise. It neither begins nor ends with white space, and it contains a double space
  only if the trimmed query itself does.
\<close>

theorem buildQuery_shape:
  assumes "trim raw \<noteq> []"
      and "toLowerCase lang \<noteq> ''constructor''" and "toLowerCase lang \<noteq> ''__proto__''"
  shows "buildQuery (trim raw) lang =
           (case map_of LANG_HINT (toLowerCase lang) of
              Some phrase \<Rightarrow> trim raw @ '' '' @ phrase
            | None \<Rightarrow> trim raw)
         \<and> \<not> is_ws (hd (buildQuery (trim raw) lang))
         \<and> \<not> is_ws (last (buildQuery (trim raw) lang))
         \<and> has_double_space (buildQuery (trim raw) lang) = has_double_space (trim raw)"
proof -
  note q = assms(1) trim_ends [OF assms(1)]
  have own: "toLowerCase lang \<notin> set Object_prototype_keys"
    using inherited_keys_lower assms(2,3) by blast
  show ?thesis
  proof (cases "map_of LANG_HINT (toLowerCase lang)")
    case None
    with q own have "buildQuery (trim raw) lang = trim raw" by (simp add: buildQuery_miss)
    with None q show ?thesis by simp
  next
    case (Some p)
    note ph = phrase_shape [OF Some]
    from q Some have b: "buildQuery (trim raw) lang = trim raw @ '' '' @ p"
      by (simp add: buildQuery_hit)
    have "last (trim raw) \<noteq> CHR '' ''" using q(3) by (auto simp: is_ws_def)
    moreover have "hd p \<noteq> CHR '' ''" using ph(2) by (auto simp: is_ws_def)
    ultimately have "has_double_space (trim raw @ '' '' @ p) = has_double_space (trim raw)"
      using ph q(1) by (simp add: has_double_space_append has_double_space_Cons)
    with b Some q ph show ?thesis by (simp add: hd_append)
  qed
qed

text \<open>The query \<open>arijit\<close> between spaces, with the hints \<open>HINDI\<close> and \<open>klingon\<close>.\<close>

theorem buildQuery_shape_witness:
  "buildQuery (trim '' arijit '') ''HINDI'' = ''arijit Hindi song''
   \<and> \<not> has_double_space (buildQuery (trim '' arijit '') ''HINDI'')
   \<and> buildQuery (trim '' arijit '') ''klingon'' = ''arijit''"
proof -
  have t: "trim '' arijit '' = ''arijit''" by code_simp
  have l: "toLowerCase ''HINDI'' = ''hindi''" "toLowerCase ''klingon'' = ''klingon''" by code_simp+
  have h: "map_of LANG_HINT ''hindi'' = Some ''Hindi song''" "map_of LANG_HINT ''klingon'' = None"
    by (simp_all add: LANG_HINT_def)
  have d: "\<not> has_double_space ''arijit''" by simp
  from buildQuery_shape [of "'' arijit ''" "''HINDI''"]
  have "buildQuery (trim '' arijit '') ''HINDI'' = ''arijit Hindi song''
     \<and> \<not> has_double_space (buildQuery (trim '' arijit '') ''HINDI'')"
    unfolding t l h using d by simp
  moreover
  from buildQuery_shape [of "'' arijit ''" "''klingon''"]
  have "buildQuery (trim '' arijit '') ''klingon'' = ''arijit''"
    unfolding t l h by simp
  ultimately show ?thesis by blast
qed

subsection \<open>C5: an upstream search failure\<close>

text \<open>
  Claim C5 says that whenever the upstream search answers with a non-success status, the
  proxy answers with that status and a body \<open>{ error, details }\<close>. When the upstream
  answers 502 with a body that is not JSON, \<open>r.json()\<close> on line 127 throws before the
  status is looked at on line 129, and the proxy answers 500 with the parser's message
  and no \<open>details\<close>.
\<close>

theorem search_failure_body_not_json:
  "fst (search sample_config
     \<lparr>now_entry = 1000, token_response = Response 200 (Parsed sample_token_payload),
      now_store = 1005, search_response = Response 502 (Unparsable ''Unexpected token <'')\<rparr>
     sample_query initial_cache) =
   \<lparr>status = 500, body = Obj [(''error'', Str ''Unexpected token <'')]\<rparr>"
  by code_simp

subsection \<open>C6: a missing query\<close>

text \<open>
  Against claim C6 as stated: with no credentials configured, a request without \<open>q\<close> is
  answered 500, not 400.
\<close>

theorem search_missing_query_counterexample:
  "q_absent_or_blank Undefined
   \<and> search \<lparr>CLIENT_ID = [], CLIENT_SECRET = [], DEFAULT_MARKET = ''IN''\<rparr> sample_env
       \<lparr>query_q = Undefined, query_lang = Undefined, query_market = Undefined,
        query_limit = Undefined\<rparr> initial_cache =
     (\<lparr>status = 500, body = Obj [(''error'', Str ''Server missing Spotify credentials (.env)'')]\<rparr>,
      initial_cache, [])"
  by (simp add: search_def)

text \<open>
  Claim C6, amended. For every request to \<open>/api/search\<close> made while both credentials are
  configured, in which \<open>q\<close> is absent or blank after trimming: the response status is 400
  with body \<open>{ error: "Missing query parameter: q" }\<close>, no upstream call is made and the
  token cache is unchanged.
\<close>

theorem search_missing_query:
  "credentials_configured cfg \<Longrightarrow> q_absent_or_blank (query_q req) \<Longrightarrow>
     search cfg e req c =
       (\<lparr>status = 400, body = Obj [(''error'', Str ''Missing query parameter: q'')]\<rparr>, c, [])"
  using search_blank_query [of cfg req e c]
  by (simp add: missing_query_response_def)

text \<open>A query of blanks only.\<close>

theorem search_missing_query_witness:
  "search sample_config sample_env
     \<lparr>query_q = Str ''   '', query_lang = Undefined, query_market = Undefined,
      query_limit = Undefined\<rparr> initial_cache =
     (\<lparr>status = 400, body = Obj [(''error'', Str ''Missing query parameter: q'')]\<rparr>,
      initial_cache, [])"
proof -
  have cr: "credentials_configured sample_config"
    by (simp add: credentials_configured_def sample_config_def)
  have b: "q_absent_or_blank (query_q \<lparr>query_q = Str ''   '', query_lang = Undefined,
      query_market = Undefined, query_limit = Undefined\<rparr>)"
    by code_simp
  from search_missing_query [OF cr b] show ?thesis .
qed

subsection \<open>C7: image and URL of a mapped track\<close>




subsection \<open>C8: an unknown language hint\<close>

text \<open>
  Claim C8 says that a hint that is not in the Language Hint Table adds no suffix. The
  hint \<open>constructor\<close> is not a key of the table, but \<open>LANG_HINT["constructor"]\<close> finds the
  function \<open>Object\<close> on the prototype chain; it is truthy, so it is joined to the query
  as text and sent upstream.
\<close>

theorem search_hint_constructor:
  "map_of LANG_HINT (toLowerCase ''constructor'') = None
   \<and> snd (snd (search sample_config sample_env
       \<lparr>query_q = Str ''arijit'', query_lang = Str ''constructor'', query_market = Undefined,
        query_limit = Undefined\<rparr> initial_cache)) =
     [TokenExchange ''id:secret'',
      SearchCall ''Bearer T1''
        [(''q'', ''arijit function Object() { [native code] }''), (''type'', ''track''),
         (''market'', ''IN''), (''limit'', ''24'')]]"
  by code_simp

subsection \<open>C9: the credentials are checked first\<close>

text \<open>
  Claim C9. For every request to \<open>/api/search\<close> made while the client identifier or the
  secret is missing, the response is 500 with body
  \<open>{ error: "Server missing Spotify credentials (.env)" }\<close>, whatever the parameter \<open>q\<close>
  is, and no call is made; so the 400 response for a missing query is only produced when
  both credentials are configured.
\<close>

theorem credentials_checked_first:
  "(\<not> credentials_configured cfg \<longrightarrow>
      search cfg e req c =
        (\<lparr>status = 500, body = Obj [(''error'', Str ''Server missing Spotify credentials (.env)'')]\<rparr>,
         c, []))
   \<and> (fst (search cfg e req c) =
        \<lparr>status = 400, body = Obj [(''error'', Str ''Missing query parameter: q'')]\<rparr> \<longrightarrow>
        credentials_configured cfg)"
proof (intro conjI impI)
  assume "\<not> credentials_configured cfg"
  then show "search cfg e req c =
        (\<lparr>status = 500, body = Obj [(''error'', Str ''Server missing Spotify credentials (.env)'')]\<rparr>,
         c, [])"
    by (simp add: search_no_credentials missing_credentials_response_def)
next
  assume a: "fst (search cfg e req c) =
        \<lparr>status = 400, body = Obj [(''error'', Str ''Missing query parameter: q'')]\<rparr>"
  show "credentials_configured cfg"
  proof (rule ccontr)
    assume "\<not> credentials_configured cfg"
    with a show False by (simp add: search_no_credentials missing_credentials_response_def)
  qed
qed

text \<open>
  The secret is missing and \<open>q\<close> is blank: the answer is 500. The same request with both
  credentials is answered 400.
\<close>

theorem credentials_checked_first_witness:
  "search \<lparr>CLIENT_ID = ''id'', CLIENT_SECRET = [], DEFAULT_MARKET = ''IN''\<rparr> sample_env
     \<lparr>query_q = Str ''  '', query_lang = Undefined, query_market = Undefined,
      query_limit = Undefined\<rparr> initial_cache =
     (\<lparr>status = 500, body = Obj [(''error'', Str ''Server missing Spotify credentials (.env)'')]\<rparr>,
      initial_cache, [])
   \<and> fst (search sample_config sample_env
     \<lparr>query_q = Str ''  '', query_lang = Undefined, query_market = Undefined,
      query_limit = Undefined\<rparr> initial_cache) =
       \<lparr>status = 400, body = Obj [(''error'', Str ''Missing query parameter: q'')]\<rparr>
   \<and> credentials_configured sample_config"
proof -
  let ?req = "\<lparr>query_q = Str ''  '', query_lang = Undefined, query_market = Undefined,
      query_limit = Undefined\<rparr>"
  have "\<not> credentials_configured \<lparr>CLIENT_ID = ''id'', CLIENT_SECRET = [], DEFAULT_MARKET = ''IN''\<rparr>"
    by (simp add: credentials_configured_def)
  with credentials_checked_first
         [where cfg = "\<lparr>CLIENT_ID = ''id'', CLIENT_SECRET = [], DEFAULT_MARKET = ''IN''\<rparr>"]
  have "search \<lparr>CLIENT_ID = ''id'', CLIENT_SECRET = [], DEFAULT_MARKET = ''IN''\<rparr> sample_env ?req
          initial_cache =
     (\<lparr>status = 500, body = Obj [(''error'', Str ''Server missing Spotify credentials (.env)'')]\<rparr>,
      initial_cache, [])"
    by blast
  moreover have r: "fst (search sample_config sample_env ?req initial_cache) =
       \<lparr>status = 400, body = Obj [(''error'', Str ''Missing query parameter: q'')]\<rparr>"
    by code_simp
  moreover have "credentials_configured sample_config"
    using credentials_checked_first
            [where cfg = sample_config and e = sample_env and req = ?req and c = initial_cache] r
    by blast
  ultimately show ?thesis by blast
qed

subsection \<open>C10: token_cached of the health route\<close>

text \<open>
  Against claim C10 as stated: a token exchange answered with the access token \<open>""\<close>
  leaves a value in the cache that is not \<open>null\<close>, and \<open>token_cached\<close> is false.
\<close>

theorem health_empty_token_counterexample:
  "fst (snd (getAccessToken sample_config
       \<lparr>now_entry = 1000,
        token_response = Response 200 (Parsed (Obj [(''access_token'', Str []),
                                                   (''expires_in'', Number (Num 3600))])),
        now_store = 1005, search_response = Rejected []\<rparr> initial_cache)) =
     \<lparr>access_token = Str [], expires_at = Num 3601005\<rparr>
   \<and> access_token \<lparr>access_token = Str [], expires_at = Num 3601005\<rparr> \<noteq> Null
   \<and> get_prop (body (health sample_config \<lparr>access_token = Str [], expires_at = Num 3601005\<rparr>))
       ''token_cached'' = Bool False"
  by code_simp

text \<open>
  Claim C10, amended. The \<open>token_cached\<close> field returned by \<open>GET /api/health\<close> is true
  exactly when the token cache holds a truthy token value (not \<open>undefined\<close>, \<open>null\<close>,
  \<open>false\<close>, 0, \<open>NaN\<close> or the empty string), whatever the cached expiry is; therefore
  \<open>token_cached\<close> is true also for a token that \<open>getAccessToken\<close> no longer returns from
  the cache but replaces by a token exchange.
\<close>

theorem health_token_cached:
  "get_prop (body (health cfg c)) ''token_cached'' =
     Bool (access_token c \<notin> {Undefined, Null, Bool False, Number (Num 0), Number NaN, Str []})
   \<and> health cfg (c\<lparr>expires_at := x\<rparr>) = health cfg c
   \<and> (truthy (access_token c) \<and> \<not> cached_token_usable (now_entry e) c \<longrightarrow>
        get_prop (body (health cfg c)) ''token_cached'' = Bool True
        \<and> snd (snd (getAccessToken cfg e c)) =
            [TokenExchange (CLIENT_ID cfg @ '':'' @ CLIENT_SECRET cfg)])"
proof -
  have "truthy v \<longleftrightarrow> v \<notin> {Undefined, Null, Bool False, Number (Num 0), Number NaN, Str []}" for v
    by (cases v rule: truthy.cases) auto
  then have "get_prop (body (health cfg c)) ''token_cached'' =
     Bool (access_token c \<notin> {Undefined, Null, Bool False, Number (Num 0), Number NaN, Str []})"
    by (simp add: health_def)
  moreover have "health cfg (c\<lparr>expires_at := x\<rparr>) = health cfg c"
    by (simp add: health_def)
  moreover have "truthy (access_token c) \<and> \<not> cached_token_usable (now_entry e) c \<longrightarrow>
        get_prop (body (health cfg c)) ''token_cached'' = Bool True
        \<and> snd (snd (getAccessToken cfg e c)) =
            [TokenExchange (CLIENT_ID cfg @ '':'' @ CLIENT_SECRET cfg)]"
    by (simp add: health_def getAccessToken_calls)
  ultimately show ?thesis by blast
qed

text \<open>At time 1000 a token with expiry 5000 is past the safety margin.\<close>

theorem health_token_cached_witness:
  "get_prop (body (health sample_config \<lparr>access_token = Str ''T0'', expires_at = Num 5000\<rparr>))
     ''token_cached'' = Bool True
   \<and> snd (snd (getAccessToken sample_config sample_env
        \<lparr>access_token = Str ''T0'', expires_at = Num 5000\<rparr>)) = [TokenExchange ''id:secret'']"
proof -
  have t: "truthy (access_token \<lparr>access_token = Str ''T0'', expires_at = Num 5000\<rparr>)" by simp
  have u: "\<not> cached_token_usable (now_entry sample_env)
      \<lparr>access_token = Str ''T0'', expires_at = Num 5000\<rparr>"
    by (simp add: cached_token_usable_def sample_env_def)
  have k: "CLIENT_ID sample_config @ '':'' @ CLIENT_SECRET sample_config = ''id:secret''"
    by (simp add: sample_config_def)
  from health_token_cached
         [where c = "\<lparr>access_token = Str ''T0'', expires_at = Num 5000\<rparr>"
            and cfg = sample_config and e = sample_env] t u
  show ?thesis unfolding k by blast
qed

end
